theory Spec2Isabelle
  imports Main "HOL-Library.Sublist" "HOL-Library.Log_Nat"
begin

section \<open>JavaScript values used by the upload page\<close>

text \<open>
  The page (\<^verbatim>\<open>src/app/page.tsx\<close>, and its flat-table variant) is a React component
  written in TypeScript. Its handlers use a handful of JavaScript built-ins whose exact
  behaviour decides what the page does: \<^verbatim>\<open>String.prototype.trim\<close>, \<^verbatim>\<open>parseInt\<close>,
  the \<^verbatim>\<open>||\<close> operator on strings and numbers, and plain objects used as dictionaries.
  They are modelled here as ECMAScript defines them.

  A JavaScript string is modelled by its UTF-8 encoding, a \<^typ>\<open>string\<close> of bytes. The
  page never measures a string; it only compares, trims, scans for digits and
  concatenates, and these agree on both representations once whitespace is recognised
  by its encoding.
\<close>

subsection \<open>Whitespace and trimming\<close>

text \<open>
  The code points that \<^verbatim>\<open>trim\<close> and \<^verbatim>\<open>parseInt\<close> skip (WhiteSpace and
  LineTerminator): TAB, LF, VT, FF, CR, SPACE, U+00A0, U+1680, U+2000 to U+200A, U+2028,
  U+2029, U+202F, U+205F, U+3000 and U+FEFF, each as its UTF-8 bytes.
\<close>

definition js_whitespace :: "string list" where
  "js_whitespace =
    [[CHR 0x09], [CHR 0x0A], [CHR 0x0B], [CHR 0x0C], [CHR 0x0D], [CHR 0x20],
     [CHR 0xC2, CHR 0xA0],
     [CHR 0xE1, CHR 0x9A, CHR 0x80],
     [CHR 0xE2, CHR 0x80, CHR 0x80], [CHR 0xE2, CHR 0x80, CHR 0x81],
     [CHR 0xE2, CHR 0x80, CHR 0x82], [CHR 0xE2, CHR 0x80, CHR 0x83],
     [CHR 0xE2, CHR 0x80, CHR 0x84], [CHR 0xE2, CHR 0x80, CHR 0x85],
     [CHR 0xE2, CHR 0x80, CHR 0x86], [CHR 0xE2, CHR 0x80, CHR 0x87],
     [CHR 0xE2, CHR 0x80, CHR 0x88], [CHR 0xE2, CHR 0x80, CHR 0x89],
     [CHR 0xE2, CHR 0x80, CHR 0x8A],
     [CHR 0xE2, CHR 0x80, CHR 0xA8], [CHR 0xE2, CHR 0x80, CHR 0xA9],
     [CHR 0xE2, CHR 0x80, CHR 0xAF],
     [CHR 0xE2, CHR 0x81, CHR 0x9F],
     [CHR 0xE3, CHR 0x80, CHR 0x80],
     [CHR 0xEF, CHR 0xBB, CHR 0xBF]]"

text \<open>Remove, as long as there is one, a leading occurrence of one of the sequences \<open>ws\<close>.\<close>

function strip_leading :: "string list \<Rightarrow> string \<Rightarrow> string" where
  "strip_leading ws s =
     (case find (\<lambda>w. w \<noteq> [] \<and> prefix w s) ws of
        None \<Rightarrow> s
      | Some w \<Rightarrow> strip_leading ws (drop (length w) s))"
  by pat_completeness auto
termination
  by (relation "measure (\<lambda>(ws, s). length s)") (auto simp: find_Some_iff prefix_def)

definition trimStart :: "string \<Rightarrow> string" where
  "trimStart s = strip_leading js_whitespace s"

definition trimEnd :: "string \<Rightarrow> string" where
  "trimEnd s = rev (strip_leading (map rev js_whitespace) (rev s))"

definition trim :: "string \<Rightarrow> string" where
  "trim s = trimEnd (trimStart s)"

subsection \<open>Numbers and \<^verbatim>\<open>parseInt\<close>\<close>

text \<open>
  The Number values that \<^verbatim>\<open>parseInt\<close> can return: NaN, an integer-valued double, or an
  infinity (a digit string longer than 308 digits overflows). \<open>Fin 0\<close> stands for both
  zeros; the page only tests them for truthiness, where they agree.
\<close>

datatype jsnum = NaN | Fin int | PosInf | NegInf

text \<open>
  The Number value of a mathematical integer: the nearest double, ties to the even
  significand. Integers below \<open>2^53\<close> in magnitude are represented exactly; beyond, the
  integer is rounded to 53 significant bits, and to an infinity from \<open>2^1024\<close> on.
  (ECMAScript lets an engine replace the digits after the twentieth by zeros before it
  rounds; the definition rounds the exact integer. Both agree below \<open>2^53\<close>.)
\<close>

definition toNumber :: "int \<Rightarrow> jsnum" where
  "toNumber n =
     (let m = nat \<bar>n\<bar> in
      if m < 2 ^ 53 then Fin n
      else
        let e = floorlog 2 m - 53;
            q = m div 2 ^ e;
            r = m mod 2 ^ e;
            half = 2 ^ (e - 1);
            q' = (if half < r then q + 1 else if r = half \<and> odd q then q + 1 else q);
            v = q' * 2 ^ e
        in if 2 ^ 1024 \<le> v then (if n < 0 then NegInf else PosInf)
           else Fin (if n < 0 then - int v else int v))"

text \<open>The value of a character as a digit: \<open>0-9\<close>, then \<open>a-z\<close> or \<open>A-Z\<close> for 10 to 35; 36 for
  any other character, which is a digit in no radix.\<close>

definition digit_value :: "char \<Rightarrow> nat" where
  "digit_value c =
     (let k = (of_char c :: nat) in
      if 48 \<le> k \<and> k \<le> 57 then k - 48
      else if 97 \<le> k \<and> k \<le> 122 then k - 87
      else if 65 \<le> k \<and> k \<le> 90 then k - 55
      else 36)"

text \<open>
  \<^verbatim>\<open>parseInt(string)\<close> with no radix argument: skip leading whitespace, read an optional
  sign, switch to radix 16 after a \<^verbatim>\<open>0x\<close> or \<^verbatim>\<open>0X\<close> prefix, take the longest run of digits
  of the radix, and return NaN when that run is empty. Whatever follows the digits is
  ignored.
\<close>

definition parseInt :: "string \<Rightarrow> jsnum" where
  "parseInt inputString =
     (let S = trimStart inputString;
          sign = (if S \<noteq> [] \<and> hd S = CHR ''-'' then - 1 else (1::int));
          S1 = (if S \<noteq> [] \<and> (hd S = CHR ''+'' \<or> hd S = CHR ''-'') then tl S else S);
          hex = (take 2 S1 = ''0x'' \<or> take 2 S1 = ''0X'');
          R = (if hex then 16 else (10::nat));
          S2 = (if hex then drop 2 S1 else S1);
          Z = takeWhile (\<lambda>c. digit_value c < R) S2
      in if Z = [] then NaN
         else toNumber (sign * int (foldl (\<lambda>a c. a * R + digit_value c) 0 Z)))"

text \<open>\<^verbatim>\<open>a || b\<close> on a number: \<open>a\<close> unless it is falsy (NaN or a zero).\<close>

definition num_or :: "jsnum \<Rightarrow> jsnum \<Rightarrow> jsnum" where
  "num_or a b = (if a = NaN \<or> a = Fin 0 then b else a)"

text \<open>Truthiness of a value that is a string or \<^verbatim>\<open>undefined\<close> (\<open>None\<close>): a non-empty
  string.\<close>

definition truthy :: "string option \<Rightarrow> bool" where
  "truthy v = (case v of None \<Rightarrow> False | Some s \<Rightarrow> s \<noteq> [])"

text \<open>\<^verbatim>\<open>a || b\<close> on such a value, with a string \<open>b\<close>.\<close>

definition str_or :: "string option \<Rightarrow> string \<Rightarrow> string" where
  "str_or a b = (case a of None \<Rightarrow> b | Some s \<Rightarrow> if s = [] then b else s)"

text \<open>\<^verbatim>\<open>String(v)\<close> of a string or \<^verbatim>\<open>undefined\<close>, as \<^verbatim>\<open>parseInt\<close> applies it to its
  argument.\<close>

definition ToString :: "string option \<Rightarrow> string" where
  "ToString v = (case v of None \<Rightarrow> ''undefined'' | Some s \<Rightarrow> s)"

text \<open>
  What a \<^verbatim>\<open>throw\<close> or a rejected promise carries to the \<^verbatim>\<open>catch\<close> clause of the page:
  an \<^verbatim>\<open>Error\<close> the page builds itself with a message, a \<^verbatim>\<open>TypeError\<close> raised by the
  engine, or the rejection of a browser call, with its message.
\<close>

datatype thrown = Error string | TypeError | Rejected string

section \<open>The CSV Ingestor\<close>

text \<open>
  \<^verbatim>\<open>Papa.parse(text, {header: true, skipEmptyLines: true}).data\<close> is an array of objects,
  one for each non-empty line after the header line, that map a header to the cell in
  its column. Cells are strings; a line with fewer cells than headers leaves the last
  headers without a property. The parser belongs to the \<^verbatim>\<open>papaparse\<close> package; the page's
  own code starts from this array.
\<close>

type_synonym row = "string \<rightharpoonup> string"

record UploadRecord =
  Company_Name :: string
  Region :: string
  Max_Results :: jsnum

text \<open>The \<^verbatim>\<open>filter\<close> callback:
  \<^verbatim>\<open>company['Company Name'] && company['Region']\<close>.\<close>

definition valid_row :: "row \<Rightarrow> bool" where
  "valid_row company = (truthy (company ''Company Name'') \<and> truthy (company ''Region''))"

text \<open>The \<^verbatim>\<open>map\<close> callback. Calling \<^verbatim>\<open>.trim()\<close> on \<^verbatim>\<open>undefined\<close> raises a TypeError.\<close>

definition clean_row :: "row \<Rightarrow> thrown + UploadRecord" where
  "clean_row company =
     (case company ''Company Name'' of
        None \<Rightarrow> Inl TypeError
      | Some cn \<Rightarrow>
          (case company ''Region'' of
             None \<Rightarrow> Inl TypeError
           | Some rg \<Rightarrow>
               Inr \<lparr>Company_Name = trim cn,
                    Region = trim rg,
                    Max_Results = num_or (parseInt (ToString (company ''Max Results''))) (Fin 20)\<rparr>))"

text \<open>\<^verbatim>\<open>Array.prototype.map\<close> with a callback that may throw: the first throw ends it.\<close>

fun map_throwing :: "('a \<Rightarrow> thrown + 'b) \<Rightarrow> 'a list \<Rightarrow> thrown + 'b list" where
  "map_throwing f [] = Inr []"
| "map_throwing f (x # xs) =
     (case f x of
        Inl e \<Rightarrow> Inl e
      | Inr y \<Rightarrow> (case map_throwing f xs of Inl e \<Rightarrow> Inl e | Inr ys \<Rightarrow> Inr (y # ys)))"

text \<open>\<^verbatim>\<open>parsed.data.filter(...).map(...)\<close>.\<close>

definition cleanedCompanies :: "row list \<Rightarrow> thrown + UploadRecord list" where
  "cleanedCompanies data = map_throwing clean_row (filter valid_row data)"

section \<open>Rendering numbers\<close>

text \<open>The decimal text of an integer, as a template literal renders an integer-valued
  Number of magnitude below \<open>2^53\<close>; the page renders array lengths and status codes this
  way. \<open>digit_char\<close> is only applied to numbers below 10.\<close>

definition digit_char :: "nat \<Rightarrow> char" where
  "digit_char d = ''0123456789'' ! d"

fun show_nat :: "nat \<Rightarrow> string" where
  "show_nat n = (if n < 10 then [digit_char n] else show_nat (n div 10) @ [digit_char (n mod 10)])"

declare show_nat.simps [simp del]

definition show_int :: "int \<Rightarrow> string" where
  "show_int i = (if i < 0 then CHR ''-'' # show_nat (nat (- i)) else show_nat (nat i))"

text \<open>
  A count in the response, as a template literal renders it. A count the server left out
  is \<^verbatim>\<open>undefined\<close> and is rendered by its name. A count is an integer-valued Number;
  below \<open>2^53\<close> in magnitude its text is its decimal digits. Beyond that
  \<^verbatim>\<open>Number::toString\<close> gives the shortest digits that read back to the same double, in
  exponent notation from \<open>10^21\<close> on: that text is left to the engine, as the function
  \<open>big\<close>.
\<close>

definition show_count :: "(int \<Rightarrow> string) \<Rightarrow> int option \<Rightarrow> string" where
  "show_count big v =
     (case v of
        None \<Rightarrow> ''undefined''
      | Some n \<Rightarrow> if \<bar>n\<bar> < 2 ^ 53 then show_int n else big n)"

text \<open>\<^verbatim>\<open>v || d\<close> on a count: \<^verbatim>\<open>undefined\<close> is falsy like zero.\<close>

definition count_or :: "int option \<Rightarrow> int \<Rightarrow> int" where
  "count_or v d = (case v of None \<Rightarrow> d | Some n \<Rightarrow> if n = 0 then d else n)"

section \<open>Plain objects as dictionaries\<close>

text \<open>
  \<^verbatim>\<open>grouped\<close> is created as \<^verbatim>\<open>{}\<close>: an ordinary object whose prototype is
  \<^verbatim>\<open>Object.prototype\<close>. It is modelled by the list of its own properties in the order
  of their creation. Reading a key that is no own property finds the property of that
  name on the prototype, when there is one.
\<close>

type_synonym 'v js_object = "(string \<times> 'v) list"

definition Object_prototype_keys :: "string list" where
  "Object_prototype_keys =
    [''constructor'', ''__defineGetter__'', ''__defineSetter__'', ''hasOwnProperty'',
     ''__lookupGetter__'', ''__lookupSetter__'', ''isPrototypeOf'', ''propertyIsEnumerable'',
     ''toString'', ''valueOf'', ''__proto__'', ''toLocaleString'']"

datatype 'v property = Own 'v | Inherited | Undefined

definition get_property :: "'v js_object \<Rightarrow> string \<Rightarrow> 'v property" where
  "get_property obj k =
     (case map_of obj k of
        Some v \<Rightarrow> Own v
      | None \<Rightarrow> if k \<in> set Object_prototype_keys then Inherited else Undefined)"

text \<open>\<^verbatim>\<open>obj[k] = v\<close> for a key that is not on the prototype: an own property keeps its
  place, a new one is created last.\<close>

fun put_property :: "string \<Rightarrow> 'v \<Rightarrow> 'v js_object \<Rightarrow> 'v js_object" where
  "put_property k v [] = [(k, v)]"
| "put_property k v (p # ps) = (if fst p = k then (k, v) # ps else p # put_property k v ps)"

text \<open>
  The order in which \<^verbatim>\<open>Object.keys\<close> and \<^verbatim>\<open>Object.entries\<close> list own properties: first
  the keys that are array indices (the decimal text of an integer below \<open>2^32 - 1\<close>, with
  no leading zero), by ascending value; then all other keys, by creation.
\<close>

definition decimal :: "string \<Rightarrow> nat" where
  "decimal k = foldl (\<lambda>a c. a * 10 + digit_value c) 0 k"

definition is_array_index :: "string \<Rightarrow> bool" where
  "is_array_index k =
     (k \<noteq> [] \<and> list_all (\<lambda>c. digit_value c < 10) k \<and>
      (if hd k = CHR ''0'' then k = ''0'' else True) \<and> decimal k < 4294967295)"

definition Object_entries :: "'v js_object \<Rightarrow> (string \<times> 'v) list" where
  "Object_entries obj =
     sort_key (\<lambda>p. decimal (fst p)) (filter (\<lambda>p. is_array_index (fst p)) obj)
     @ filter (\<lambda>p. \<not> is_array_index (fst p)) obj"

definition Object_keys :: "'v js_object \<Rightarrow> string list" where
  "Object_keys obj = map fst (Object_entries obj)"

text \<open>\<^verbatim>\<open>Array.prototype.forEach\<close> with a callback that updates a value and may throw.\<close>

fun forEach_throwing :: "('s \<Rightarrow> 'a \<Rightarrow> thrown + 's) \<Rightarrow> 's \<Rightarrow> 'a list \<Rightarrow> thrown + 's" where
  "forEach_throwing f s [] = Inr s"
| "forEach_throwing f s (x # xs) =
     (case f s x of Inl e \<Rightarrow> Inl e | Inr s' \<Rightarrow> forEach_throwing f s' xs)"

section \<open>The data of the page\<close>

text \<open>A profile as the server sends it. A field the JSON object lacks is \<open>None\<close>.\<close>

record ProfileResult =
  name :: "string option"
  title :: "string option"
  snippet :: "string option"
  url :: "string option"
  email :: "string option"
  startDate :: "string option"
  duration :: "string option"
  search_company :: "string option"
  search_region :: "string option"

text \<open>The parsed JSON body of the response, at the type the page declares for it
  (\<^verbatim>\<open>const result: ProcessingResponse\<close>): an object whose fields, when they are there,
  are strings, integers and arrays as declared. A field the object lacks is \<open>None\<close>. The
  flat page declares the same interface without \<^verbatim>\<open>processedCompanies\<close>, and never reads
  that field.\<close>

record ProcessingResponse =
  resp_status :: "string option"
  resp_message :: "string option"
  resp_totalCompanies :: "int option"
  resp_totalProfiles :: "int option"
  resp_processedCompanies :: "string list option"
  resp_profiles :: "ProfileResult list option"
  resp_timestamp :: "string option"

datatype MessageType = success | error | info

record Message =
  msg_text :: string
  msg_type :: MessageType

text \<open>The selected file: its name, and what \<^verbatim>\<open>file.text()\<close> settles to.\<close>

record File =
  file_name :: string
  file_text :: "thrown + string"

text \<open>The summary statistics of the flat page, and those of the grouped page.\<close>

record FlatStats =
  totalCompanies :: int
  totalProfiles :: int
  processingTime :: string

record ProcessingStats = FlatStats +
  processedCompanies :: "string list"

text \<open>
  The state of the component: the \<^verbatim>\<open>useState\<close> cells and the value of the file input
  behind \<^verbatim>\<open>fileInputRef\<close> (\<open>None\<close> while the ref holds no element). The grouped page adds
  \<^verbatim>\<open>groupedResults\<close>.
\<close>

record 'stats PageState =
  file' :: "File option"
  message :: "Message option"
  isLoading :: bool
  results :: "ProfileResult list"
  processingStats :: "'stats option"
  fileInput :: "string option"

record UIState = "ProcessingStats PageState" +
  groupedResults :: "ProfileResult list js_object"

type_synonym FlatUIState = "FlatStats PageState"

text \<open>The one request the page sends; \<open>body\<close> is the array that
  \<^verbatim>\<open>JSON.stringify({ body: cleanedCompanies })\<close> serialises.\<close>

record Request =
  endpoint :: string
  http_method :: string
  headers :: "(string \<times> string) list"
  body :: "UploadRecord list"

text \<open>What \<^verbatim>\<open>fetch\<close> settles to: a rejection with its message, or a response with its
  status code and what \<^verbatim>\<open>response.json()\<close> settles to (a rejection message when the body
  is not JSON).\<close>

datatype FetchOutcome = NetworkError string | Response nat "string + ProcessingResponse"

text \<open>
  What the page takes from its surroundings: the CSV parser of \<^verbatim>\<open>papaparse\<close>, the network,
  the text of \<^verbatim>\<open>((Date.now() - startTime) / 1000).toFixed(1)\<close> at the time the response
  is handled, the message the engine gives a TypeError, and the text the engine gives a
  Number of magnitude \<open>2^53\<close> or more.
\<close>

record Env =
  Papa_parse :: "string \<Rightarrow> row list"
  fetch :: "Request \<Rightarrow> FetchOutcome"
  elapsed :: string
  TypeError_message :: string
  Number_toString :: "int \<Rightarrow> string"

definition webhook :: string where
  "webhook = ''https://noureyeotech.app.n8n.cloud/webhook-test/205690e7-c532-45e4-92c8-c3bd21b44c58''"

definition webhook_request :: "UploadRecord list \<Rightarrow> Request" where
  "webhook_request cleaned =
     \<lparr>endpoint = webhook, http_method = ''POST'',
      headers = [(''Content-Type'', ''application/json'')], body = cleaned\<rparr>"

text \<open>\<^verbatim>\<open>response.ok\<close>.\<close>

definition ok :: "nat \<Rightarrow> bool" where
  "ok status = (200 \<le> status \<and> status \<le> 299)"

text \<open>\<^verbatim>\<open>err.message\<close> in the \<^verbatim>\<open>catch\<close> clause.\<close>

definition err_message :: "Env \<Rightarrow> thrown \<Rightarrow> string" where
  "err_message env err =
     (case err of Error m \<Rightarrow> m | TypeError \<Rightarrow> TypeError_message env | Rejected m \<Rightarrow> m)"

definition no_valid_rows :: string where
  "no_valid_rows =
     ''No valid rows found in the CSV. Make sure each row includes \"Company Name\" and \"Region\".''"

section \<open>The Result Presenter's grouping\<close>

text \<open>The callback of \<^verbatim>\<open>result.profiles.forEach\<close>: create the group when
  \<^verbatim>\<open>grouped[companyKey]\<close> is falsy, then \<^verbatim>\<open>push\<close> the profile. A value inherited from the
  prototype is truthy and has no \<^verbatim>\<open>push\<close> method.\<close>

definition group_step ::
  "ProfileResult list js_object \<Rightarrow> ProfileResult \<Rightarrow> thrown + ProfileResult list js_object" where
  "group_step grouped profile =
     (let companyKey = str_or (search_company profile) ''Unknown Company'';
          grouped1 = (case get_property grouped companyKey of
                        Undefined \<Rightarrow> put_property companyKey [] grouped
                      | _ \<Rightarrow> grouped)
      in case get_property grouped1 companyKey of
           Own ps \<Rightarrow> Inr (put_property companyKey (ps @ [profile]) grouped1)
         | _ \<Rightarrow> Inl TypeError)"

definition group_profiles :: "ProfileResult list \<Rightarrow> thrown + ProfileResult list js_object" where
  "group_profiles profiles = forEach_throwing group_step [] profiles"

text \<open>
  The handler stores the object in \<^verbatim>\<open>groupedResults\<close>, and the JSX of the grouped page
  lists \<^verbatim>\<open>Object.entries(groupedResults)\<close>. The JSX itself, markup over components that
  the page imports from the \<^verbatim>\<open>react-icons\<close> package (among them \<^verbatim>\<open>FiBuilding\<close>), is not
  modelled: the statements about the Presenter are about the state the handler stores
  and the entries that \<^verbatim>\<open>Object.entries\<close> lists from it.
\<close>

section \<open>The submit flow: \<^verbatim>\<open>handleUpload\<close>\<close>

text \<open>
  The handler is an \<^verbatim>\<open>async\<close> function with one \<^verbatim>\<open>try\<close>/\<^verbatim>\<open>catch\<close>/\<^verbatim>\<open>finally\<close>.
  It is modelled in three parts: the success branch, the body of \<^verbatim>\<open>try\<close>, and the
  handler around it. The body returns what it threw, if anything, the state its
  \<^verbatim>\<open>set...\<close> calls have produced up to there, and the requests it has sent.
\<close>

text \<open>The first bytes of the success message of the grouped page, as the source file has
  them, before \<^verbatim>\<open>Success!\<close>.\<close>

definition success_prefix :: string where
  "success_prefix =
     [CHR 0xC3, CHR 0xB0, CHR 0xC5, CHR 0xB8, CHR 0xC5, CHR 0xBD, CHR 0xE2, CHR 0x80, CHR 0xB0,
      CHR 0x20]"

text \<open>The branch \<^verbatim>\<open>result.status === 'success' && result.profiles\<close> of the grouped
  page.\<close>

definition on_success ::
  "Env \<Rightarrow> ProcessingResponse \<Rightarrow> ProfileResult list \<Rightarrow> UIState \<Rightarrow> thrown + UIState" where
  "on_success env result profiles st =
     (case group_profiles profiles of
        Inl e \<Rightarrow> Inl e
      | Inr grouped \<Rightarrow>
          Inr (st\<lparr>results := profiles,
                  groupedResults := grouped,
                  processingStats := Some
                    \<lparr>totalCompanies = count_or (resp_totalCompanies result) 0,
                     totalProfiles = count_or (resp_totalProfiles result) 0,
                     processingTime = elapsed env @ ''s'',
                     processedCompanies =
                       (case resp_processedCompanies result of None \<Rightarrow> [] | Some cs \<Rightarrow> cs)\<rparr>,
                  message := Some
                    \<lparr>msg_text = success_prefix @ ''Success! Found ''
                        @ show_count (Number_toString env) (resp_totalProfiles result)
                        @ '' profiles across ''
                        @ show_int (count_or
                            (map_option (\<lambda>cs. int (length cs)) (resp_processedCompanies result)) 0)
                        @ '' companies'',
                     msg_type = success\<rparr>\<rparr>))"

text \<open>The test \<^verbatim>\<open>result.status === 'success' && result.profiles\<close>: the profiles when
  the status is \<^verbatim>\<open>success\<close> and the array is there (an array is truthy, also when empty).\<close>

definition success_profiles :: "ProcessingResponse \<Rightarrow> ProfileResult list option" where
  "success_profiles result =
     (if resp_status result = Some ''success'' then resp_profiles result else None)"

definition handleUpload_try ::
  "Env \<Rightarrow> File \<Rightarrow> UIState \<Rightarrow> thrown option \<times> UIState \<times> Request list" where
  "handleUpload_try env f st =
     (case file_text f of
        Inl e \<Rightarrow> (Some e, st, [])
      | Inr text \<Rightarrow>
          (case cleanedCompanies (Papa_parse env text) of
             Inl e \<Rightarrow> (Some e, st, [])
           | Inr cleaned \<Rightarrow>
               if length cleaned = 0 then (Some (Error no_valid_rows), st, [])
               else
                 let st1 = st\<lparr>message := Some
                             \<lparr>msg_text = ''Processing '' @ show_nat (length cleaned)
                                 @ '' companies. This may take several minutes...'',
                              msg_type = info\<rparr>\<rparr>;
                     request = webhook_request cleaned
                 in (case fetch env request of
                       NetworkError m \<Rightarrow> (Some (Rejected m), st1, [request])
                     | Response status json \<Rightarrow>
                         if \<not> ok status
                         then (Some (Error (''HTTP error! status: '' @ show_nat status)), st1,
                               [request])
                         else
                           (case json of
                              Inl m \<Rightarrow> (Some (Rejected m), st1, [request])
                            | Inr result \<Rightarrow>
                                (case success_profiles result of
                                   Some profiles \<Rightarrow>
                                     (case on_success env result profiles st1 of
                                        Inl e \<Rightarrow> (Some e, st1, [request])
                                      | Inr st2 \<Rightarrow> (None, st2, [request]))
                                 | None \<Rightarrow>
                                     (Some (Error (str_or (resp_message result)
                                                     ''Processing failed'')),
                                      st1, [request]))))))"

text \<open>The \<^verbatim>\<open>catch\<close> clause.\<close>

definition on_catch :: "Env \<Rightarrow> thrown \<Rightarrow> Message" where
  "on_catch env err =
     \<lparr>msg_text = str_or (Some (err_message env err)) ''Failed to process file'',
      msg_type = error\<rparr>"

text \<open>The handler. It returns at once when no file is selected; otherwise the
  \<^verbatim>\<open>finally\<close> clause ends every run.\<close>

definition handleUpload :: "Env \<Rightarrow> UIState \<Rightarrow> UIState \<times> Request list" where
  "handleUpload env st =
     (case file' st of
        None \<Rightarrow> (st, [])
      | Some f \<Rightarrow>
          (case handleUpload_try env f
                  (st\<lparr>isLoading := True, results := [], processingStats := None,
                      groupedResults := []\<rparr>) of
             (thrown, st1, requests) \<Rightarrow>
               let st2 = (case thrown of
                            None \<Rightarrow> st1
                          | Some err \<Rightarrow> st1\<lparr>message := Some (on_catch env err)\<rparr>)
               in (st2\<lparr>isLoading := False,
                       fileInput := map_option (\<lambda>_. []) (fileInput st2),
                       file' := None\<rparr>,
                   requests)))"

text \<open>The submit button is rendered with \<^verbatim>\<open>disabled={isLoading || !file}\<close>.\<close>

definition submit_disabled :: "('s, 'z) PageState_scheme \<Rightarrow> bool" where
  "submit_disabled st = (isLoading st \<or> file' st = None)"

subsection \<open>The flat page\<close>

text \<open>The second page variant renders one table and has no grouping. Its handler differs
  from the first in the success branch and in the wording of two messages; it also logs
  the payload to the console before it sends it, which changes nothing here.\<close>

definition on_success_flat ::
  "Env \<Rightarrow> ProcessingResponse \<Rightarrow> ProfileResult list \<Rightarrow> FlatUIState \<Rightarrow> FlatUIState" where
  "on_success_flat env result profiles st =
     st\<lparr>results := profiles,
        processingStats := Some
          \<lparr>totalCompanies = count_or (resp_totalCompanies result) 0,
           totalProfiles = count_or (resp_totalProfiles result) 0,
           processingTime = elapsed env @ ''s''\<rparr>,
        message := Some
          \<lparr>msg_text = ''Success! Found ''
              @ show_count (Number_toString env) (resp_totalProfiles result)
              @ '' profiles across ''
              @ show_count (Number_toString env) (resp_totalCompanies result)
              @ '' companies'',
           msg_type = success\<rparr>\<rparr>"

definition handleUpload_flat_try ::
  "Env \<Rightarrow> File \<Rightarrow> FlatUIState \<Rightarrow> thrown option \<times> FlatUIState \<times> Request list" where
  "handleUpload_flat_try env f st =
     (case file_text f of
        Inl e \<Rightarrow> (Some e, st, [])
      | Inr text \<Rightarrow>
          (case cleanedCompanies (Papa_parse env text) of
             Inl e \<Rightarrow> (Some e, st, [])
           | Inr cleaned \<Rightarrow>
               if length cleaned = 0 then (Some (Error no_valid_rows), st, [])
               else
                 let st1 = st\<lparr>message := Some
                             \<lparr>msg_text = ''Processing '' @ show_nat (length cleaned)
                                 @ '' companies. This may take a few minutes...'',
                              msg_type = info\<rparr>\<rparr>;
                     request = webhook_request cleaned
                 in (case fetch env request of
                       NetworkError m \<Rightarrow> (Some (Rejected m), st1, [request])
                     | Response status json \<Rightarrow>
                         if \<not> ok status
                         then (Some (Error (''HTTP error! status: '' @ show_nat status)), st1,
                               [request])
                         else
                           (case json of
                              Inl m \<Rightarrow> (Some (Rejected m), st1, [request])
                            | Inr result \<Rightarrow>
                                (case success_profiles result of
                                   Some profiles \<Rightarrow>
                                     (None, on_success_flat env result profiles st1, [request])
                                 | None \<Rightarrow>
                                     (Some (Error (str_or (resp_message result)
                                                     ''Processing failed'')),
                                      st1, [request]))))))"

definition handleUpload_flat :: "Env \<Rightarrow> FlatUIState \<Rightarrow> FlatUIState \<times> Request list" where
  "handleUpload_flat env st =
     (case file' st of
        None \<Rightarrow> (st, [])
      | Some f \<Rightarrow>
          (case handleUpload_flat_try env f
                  (st\<lparr>isLoading := True, results := [], processingStats := None\<rparr>) of
             (thrown, st1, requests) \<Rightarrow>
               let st2 = (case thrown of
                            None \<Rightarrow> st1
                          | Some err \<Rightarrow> st1\<lparr>message := Some (on_catch env err)\<rparr>)
               in (st2\<lparr>isLoading := False,
                       fileInput := map_option (\<lambda>_. []) (fileInput st2),
                       file' := None\<rparr>,
                   requests)))"


section \<open>Notions of the specification\<close>

text \<open>The distinct elements of a list in the order of their first occurrence.\<close>

fun first_seen :: "'a list \<Rightarrow> 'a list" where
  "first_seen [] = []"
| "first_seen (x # xs) = x # filter (\<lambda>y. y \<noteq> x) (first_seen xs)"

text \<open>The grouping key of a profile.\<close>

definition companyKey :: "ProfileResult \<Rightarrow> string" where
  "companyKey profile = str_or (search_company profile) ''Unknown Company''"

text \<open>The groups of a profile sequence: for each key in first-seen order, the profiles with
  that key, in their original order.\<close>

definition groups_of :: "ProfileResult list \<Rightarrow> ProfileResult list js_object" where
  "groups_of profiles =
     map (\<lambda>k. (k, filter (\<lambda>p. companyKey p = k) profiles)) (first_seen (map companyKey profiles))"

section \<open>Concrete inputs\<close>

text \<open>The inputs of the scenarios of the specification, for the instances below.\<close>

definition acme_profile :: ProfileResult where
  "acme_profile =
     \<lparr>name = Some ''Alice Martin'', title = Some ''Engineer'', snippet = None,
      url = Some ''https://www.linkedin.com/in/alice-martin'', email = None, startDate = None,
      duration = None, search_company = Some ''Acme'', search_region = Some ''US''\<rparr>"

definition acme_csv :: string where
  "acme_csv = ''Company Name,Region'' @ [CHR 0x0A] @ ''Acme,US'' @ [CHR 0x0A]"

definition empty_name_csv :: string where
  "empty_name_csv = ''Company Name,Region'' @ [CHR 0x0A] @ '',US'' @ [CHR 0x0A]"

definition blank_name_csv :: string where
  "blank_name_csv = ''Company Name,Region'' @ [CHR 0x0A] @ ''   ,US'' @ [CHR 0x0A]"

text \<open>A selected file with the given text, and the state of each page once it is selected.\<close>

definition example_file :: "string \<Rightarrow> File" where
  "example_file csv = \<lparr>file_name = ''companies.csv'', file_text = Inr csv\<rparr>"

definition example_state :: "string \<Rightarrow> UIState" where
  "example_state csv =
     \<lparr>file' = Some (example_file csv),
      message = Some \<lparr>msg_text = ''Ready to upload: companies.csv'', msg_type = info\<rparr>,
      isLoading = False, results = [], processingStats = None,
      fileInput = Some ''companies.csv'', groupedResults = []\<rparr>"

definition example_flat_state :: "string \<Rightarrow> FlatUIState" where
  "example_flat_state csv =
     \<lparr>file' = Some (example_file csv),
      message = Some \<lparr>msg_text = ''Ready to upload: companies.csv'', msg_type = info\<rparr>,
      isLoading = False, results = [], processingStats = None,
      fileInput = Some ''companies.csv''\<rparr>"

text \<open>Surroundings in which the parser returns the rows \<open>data\<close> for the text \<open>csv\<close> and the
  network answers every request with \<open>outcome\<close>.\<close>

definition example_env :: "string \<Rightarrow> row list \<Rightarrow> FetchOutcome \<Rightarrow> Env" where
  "example_env csv data outcome =
     \<lparr>Papa_parse = (\<lambda>text. if text = csv then data else []),
      fetch = (\<lambda>request. outcome), elapsed = ''1.2'',
      TypeError_message = ''grouped[companyKey].push is not a function'',
      Number_toString = show_int\<rparr>"

definition acme_row :: row where
  "acme_row = [''Company Name'' \<mapsto> ''Acme'', ''Region'' \<mapsto> ''US'']"

definition empty_name_row :: row where
  "empty_name_row = [''Company Name'' \<mapsto> [], ''Region'' \<mapsto> ''US'']"

definition acme_record :: UploadRecord where
  "acme_record = \<lparr>Company_Name = ''Acme'', Region = ''US'', Max_Results = Fin 20\<rparr>"

definition scenario_C_response :: ProcessingResponse where
  "scenario_C_response =
     \<lparr>resp_status = Some ''success'', resp_message = None, resp_totalCompanies = None,
      resp_totalProfiles = None, resp_processedCompanies = None,
      resp_profiles = Some [acme_profile], resp_timestamp = None\<rparr>"

definition unlabelled_profile :: ProfileResult where
  "unlabelled_profile =
     \<lparr>name = Some ''Bob Keller'', title = Some ''Analyst'', snippet = None, url = None,
      email = None, startDate = None, duration = None, search_company = None,
      search_region = Some ''US''\<rparr>"

definition numbered_profile :: ProfileResult where
  "numbered_profile =
     \<lparr>name = Some ''Carol Petit'', title = Some ''Teacher'', snippet = None, url = None,
      email = None, startDate = None, duration = None, search_company = Some ''42'',
      search_region = Some ''FR''\<rparr>"

definition capped_row :: row where
  "capped_row = [''Company Name'' \<mapsto> ''Acme'', ''Region'' \<mapsto> ''US'', ''Max Results'' \<mapsto> ''50'']"

definition negative_row :: row where
  "negative_row = [''Company Name'' \<mapsto> ''Acme'', ''Region'' \<mapsto> ''US'', ''Max Results'' \<mapsto> ''-5'']"

definition blank_name_row :: row where
  "blank_name_row = [''Company Name'' \<mapsto> ''   '', ''Region'' \<mapsto> ''US'']"

section \<open>Facts about the concrete inputs\<close>

lemma acme_cleaned: "cleanedCompanies [acme_row] = Inr [acme_record]"
  by (simp add: acme_row_def acme_record_def cleanedCompanies_def valid_row_def truthy_def
      clean_row_def trim_def trimStart_def trimEnd_def js_whitespace_def parseInt_def
      ToString_def num_or_def digit_value_def)

lemma example_env_simps [simp]:
  "Papa_parse (example_env csv data outcome) csv = data"
  "fetch (example_env csv data outcome) request = outcome"
  by (simp_all add: example_env_def)

lemma example_state_file [simp]:
  "file' (example_state csv) = Some (example_file csv)"
  "file' (example_flat_state csv) = Some (example_file csv)"
  "file_text (example_file csv) = Inr csv"
  by (simp_all add: example_state_def example_flat_state_def example_file_def)

section \<open>Properties of the Ingestor\<close>

lemma clean_row_valid:
  "valid_row r \<Longrightarrow> \<exists>cn rg. r ''Company Name'' = Some cn \<and> r ''Region'' = Some rg \<and>
     clean_row r = Inr \<lparr>Company_Name = trim cn, Region = trim rg,
       Max_Results = num_or (parseInt (ToString (r ''Max Results''))) (Fin 20)\<rparr>"
  by (auto simp: valid_row_def truthy_def clean_row_def split: option.splits)

lemma map_throwing_total:
  "\<forall>x\<in>set xs. \<exists>y. f x = Inr y \<Longrightarrow>
   \<exists>ys. map_throwing f xs = Inr ys \<and> length ys = length xs \<and>
        (\<forall>i<length xs. f (xs ! i) = Inr (ys ! i))"
proof (induction xs)
  case Nil
  then show ?case by simp
next
  case (Cons x xs)
  then obtain y where y: "f x = Inr y" by auto
  from Cons obtain ys where ys: "map_throwing f xs = Inr ys" "length ys = length xs"
    "\<forall>i<length xs. f (xs ! i) = Inr (ys ! i)" by auto
  have "\<forall>i<length (x # xs). f ((x # xs) ! i) = Inr ((y # ys) ! i)"
    using y ys(3) by (auto simp: nth_Cons split: nat.splits)
  then show ?case using y ys by simp
qed

lemma cleanedCompanies_total:
  "\<exists>cleaned. cleanedCompanies data = Inr cleaned \<and>
     length cleaned = length (filter valid_row data) \<and>
     (\<forall>i<length cleaned. clean_row (filter valid_row data ! i) = Inr (cleaned ! i))"
proof -
  have "\<forall>r\<in>set (filter valid_row data). \<exists>u. clean_row r = Inr u"
    using clean_row_valid by fastforce
  from map_throwing_total [OF this] show ?thesis
    unfolding cleanedCompanies_def by auto
qed

text \<open>
  Claim C9. When every row the parser returns has a non-empty \<^verbatim>\<open>Company Name\<close> and a
  non-empty \<^verbatim>\<open>Region\<close>, the Ingestor returns one record for each row, in the order of
  the rows: the record at position \<open>i\<close> holds the trimmed fields of row \<open>i\<close>.
\<close>

theorem ingest_keeps_every_complete_row:
  assumes "\<forall>r\<in>set data. (\<exists>cn. r ''Company Name'' = Some cn \<and> cn \<noteq> []) \<and>
                         (\<exists>rg. r ''Region'' = Some rg \<and> rg \<noteq> [])"
  shows "\<exists>cleaned. cleanedCompanies data = Inr cleaned \<and> length cleaned = length data \<and>
           (\<forall>i<length data. \<exists>cn rg.
               (data ! i) ''Company Name'' = Some cn \<and> (data ! i) ''Region'' = Some rg \<and>
               Company_Name (cleaned ! i) = trim cn \<and> Region (cleaned ! i) = trim rg)"
proof -
  have all: "\<forall>r\<in>set data. valid_row r"
    using assms by (auto simp: valid_row_def truthy_def)
  then have keep: "filter valid_row data = data" by simp
  from cleanedCompanies_total [of data] keep obtain cleaned where
    c: "cleanedCompanies data = Inr cleaned" "length cleaned = length data"
       "\<forall>i<length data. clean_row (data ! i) = Inr (cleaned ! i)" by auto
  have "\<exists>cn rg. (data ! i) ''Company Name'' = Some cn \<and> (data ! i) ''Region'' = Some rg \<and>
               Company_Name (cleaned ! i) = trim cn \<and> Region (cleaned ! i) = trim rg"
    if "i < length data" for i
  proof -
    from that all have "valid_row (data ! i)" by simp
    from clean_row_valid [OF this] c(3) that show ?thesis by auto
  qed
  with c show ?thesis by blast
qed

theorem ingest_keeps_every_complete_row_witness:
  "\<exists>cleaned.
     cleanedCompanies
       [[''Company Name'' \<mapsto> ''Acme'', ''Region'' \<mapsto> ''US''],
        [''Company Name'' \<mapsto> '' Initech '', ''Region'' \<mapsto> ''EU'', ''Max Results'' \<mapsto> ''5'']]
       = Inr cleaned \<and>
     length cleaned = 2 \<and>
     Company_Name (cleaned ! 0) = ''Acme'' \<and>
     Company_Name (cleaned ! 1) = ''Initech'' \<and>
     Region (cleaned ! 1) = ''EU''"
proof -
  let ?data = "[[''Company Name'' \<mapsto> ''Acme'', ''Region'' \<mapsto> ''US''],
                [''Company Name'' \<mapsto> '' Initech '', ''Region'' \<mapsto> ''EU'',
                 ''Max Results'' \<mapsto> ''5'']]"
  have h: "\<forall>r\<in>set ?data.
      (\<exists>cn. r ''Company Name'' = Some cn \<and> cn \<noteq> []) \<and> (\<exists>rg. r ''Region'' = Some rg \<and> rg \<noteq> [])"
    by simp
  from ingest_keeps_every_complete_row [OF h] obtain cleaned where
    c: "cleanedCompanies ?data = Inr cleaned" "length cleaned = length ?data"
       "\<forall>i<length ?data. \<exists>cn rg.
           (?data ! i) ''Company Name'' = Some cn \<and> (?data ! i) ''Region'' = Some rg \<and>
           Company_Name (cleaned ! i) = trim cn \<and> Region (cleaned ! i) = trim rg"
    by blast
  have t: "trim ''Acme'' = ''Acme''" "trim '' Initech '' = ''Initech''" "trim ''EU'' = ''EU''"
    by (simp_all add: trim_def trimStart_def trimEnd_def js_whitespace_def)
  from c(3) have "Company_Name (cleaned ! 0) = trim ''Acme''"
    and "Company_Name (cleaned ! 1) = trim '' Initech ''"
    and "Region (cleaned ! 1) = trim ''EU''"
    by fastforce+
  with c(1,2) show ?thesis by (simp add: t)
qed

text \<open>
  Claim C2. The claim asks that every record has a non-empty company name and region
  after trimming, and that a row with a whitespace-only field is dropped. The filter
  tests the fields before they are trimmed: a row whose \<^verbatim>\<open>Company Name\<close> is three spaces
  is kept, its record has the empty company name, and the page sends that record to the
  webhook.
\<close>

theorem whitespace_only_company_name_is_kept:
  "cleanedCompanies [blank_name_row]
     = Inr [\<lparr>Company_Name = [], Region = ''US'', Max_Results = Fin 20\<rparr>] \<and>
   snd (handleUpload (example_env blank_name_csv [blank_name_row] (NetworkError ''Failed to fetch''))
          (example_state blank_name_csv))
     = [webhook_request [\<lparr>Company_Name = [], Region = ''US'', Max_Results = Fin 20\<rparr>]]"
proof -
  have c: "cleanedCompanies [blank_name_row]
     = Inr [\<lparr>Company_Name = [], Region = ''US'', Max_Results = Fin 20\<rparr>]"
    by (simp add: blank_name_row_def cleanedCompanies_def valid_row_def truthy_def
        clean_row_def trim_def trimStart_def trimEnd_def js_whitespace_def parseInt_def
        ToString_def num_or_def digit_value_def)
  have "snd (handleUpload (example_env blank_name_csv [blank_name_row] (NetworkError ''Failed to fetch''))
          (example_state blank_name_csv))
     = [webhook_request [\<lparr>Company_Name = [], Region = ''US'', Max_Results = Fin 20\<rparr>]]"
    by (simp add: handleUpload_def handleUpload_try_def c)
  with c show ?thesis by (intro conjI)
qed

subsection \<open>Reading \<^verbatim>\<open>Max Results\<close>\<close>

lemma strip_leading_none:
  "\<forall>w\<in>set ws. w = [] \<or> \<not> prefix w s \<Longrightarrow> strip_leading ws s = s"
proof -
  assume "\<forall>w\<in>set ws. w = [] \<or> \<not> prefix w s"
  then have "find (\<lambda>w. w \<noteq> [] \<and> prefix w s) ws = None"
    by (auto simp: find_None_iff)
  then show ?thesis by (subst strip_leading.simps) simp
qed

lemma trimStart_no_space:
  assumes "digit_value c < 10 \<or> c = CHR ''-''"
  shows "trimStart (c # cs) = c # cs"
  unfolding trimStart_def
proof (rule strip_leading_none)
  show "\<forall>w\<in>set js_whitespace. w = [] \<or> \<not> prefix w (c # cs)"
    using assms by (auto simp: js_whitespace_def digit_value_def)
qed

lemma digit_value_digit_char: "d < 10 \<Longrightarrow> digit_value (digit_char d) = d"
proof -
  assume "d < 10"
  then have "d \<in> {0, 1, 2, 3, 4, 5, 6, 7, 8, 9}" by auto
  then show ?thesis by (auto simp: digit_char_def digit_value_def)
qed

lemma show_nat_digits: "c \<in> set (show_nat n) \<Longrightarrow> digit_value c < 10"
proof (induction n arbitrary: c rule: show_nat.induct)
  case (1 n)
  show ?case
  proof (cases "n < 10")
    case True
    with "1.prems" show ?thesis
      by (simp add: show_nat.simps [of n] digit_value_digit_char)
  next
    case False
    with "1.prems" have "c \<in> set (show_nat (n div 10)) \<or> c = digit_char (n mod 10)"
      by (auto simp: show_nat.simps [of n])
    with False "1.IH" show ?thesis
      by (auto simp: digit_value_digit_char)
  qed
qed

lemma show_nat_nonempty: "show_nat n \<noteq> []"
  by (subst show_nat.simps) simp

lemma decimal_show_nat: "foldl (\<lambda>a c. a * 10 + digit_value c) 0 (show_nat n) = n"
proof (induction n rule: show_nat.induct)
  case (1 n)
  show ?case
  proof (cases "n < 10")
    case True
    then show ?thesis by (simp add: show_nat.simps [of n] digit_value_digit_char)
  next
    case False
    with "1.IH" show ?thesis
      by (simp add: show_nat.simps [of n] digit_value_digit_char)
  qed
qed

lemma parseInt_digits:
  assumes "s \<noteq> []" and "\<forall>c\<in>set s. digit_value c < 10"
  shows "parseInt s = toNumber (int (decimal s))"
    and "parseInt (CHR ''-'' # s) = toNumber (- int (decimal s))"
proof -
  obtain c cs where s: "s = c # cs" using assms(1) by (cases s) auto
  have x: "\<not> digit_value (CHR ''x'') < 10" "\<not> digit_value (CHR ''X'') < 10"
    "\<not> digit_value (CHR ''-'') < 10" "\<not> digit_value (CHR ''+'') < 10"
    by (simp_all add: digit_value_def)
  have "CHR ''x'' \<notin> set s" "CHR ''X'' \<notin> set s"
    using assms(2) x by blast+
  then have nohex: "take 2 s \<noteq> ''0x''" "take 2 s \<noteq> ''0X''"
    by (metis in_set_takeD list.set_intros(1,2))+
  have "hd s \<in> set s" using assms(1) by simp
  then have nosign: "hd s \<noteq> CHR ''-''" "hd s \<noteq> CHR ''+''"
    using assms(2) x by metis+
  have t1: "trimStart s = s"
    unfolding s using assms(2) by (intro trimStart_no_space) (simp add: s)
  have t2: "trimStart (CHR ''-'' # s) = CHR ''-'' # s"
    by (intro trimStart_no_space) simp
  have all: "takeWhile (\<lambda>c. digit_value c < 10) s = s"
    using assms(2) by (simp add: takeWhile_eq_all_conv)
  show "parseInt s = toNumber (int (decimal s))"
    unfolding parseInt_def t1 using assms(1) nosign nohex
    by (simp add: all decimal_def Let_def)
  show "parseInt (CHR ''-'' # s) = toNumber (- int (decimal s))"
    unfolding parseInt_def t2 using assms(1) nohex
    by (simp add: all decimal_def Let_def)
qed

lemma decimal_show_nat': "decimal (show_nat n) = n"
  by (simp add: decimal_def decimal_show_nat)

lemma parseInt_show_int: "parseInt (show_int n) = toNumber n"
  using parseInt_digits [of "show_nat (nat n)"] parseInt_digits [of "show_nat (nat (- n))"]
  by (simp add: show_int_def show_nat_nonempty show_nat_digits decimal_show_nat')

lemma toNumber_exact: "\<bar>n\<bar> < 2 ^ 53 \<Longrightarrow> toNumber n = Fin n"
  by (simp add: toNumber_def nat_less_iff)

lemma parseInt_undefined: "parseInt ''undefined'' = NaN"
  by (simp add: parseInt_def trimStart_def js_whitespace_def digit_value_def)

lemma kept_row_record:
  assumes "cleanedCompanies data = Inr cleaned" and "i < length cleaned"
  shows "Max_Results (cleaned ! i)
      = num_or (parseInt (ToString ((filter valid_row data ! i) ''Max Results''))) (Fin 20)"
proof -
  from cleanedCompanies_total [of data] assms(1) have
    len: "length cleaned = length (filter valid_row data)"
    and each: "\<forall>j<length cleaned. clean_row (filter valid_row data ! j) = Inr (cleaned ! j)"
    by auto
  from len assms(2) have "i < length (filter valid_row data)" by simp
  then have "filter valid_row data ! i \<in> set (filter valid_row data)" by (rule nth_mem)
  then have "valid_row (filter valid_row data ! i)" by simp
  from clean_row_valid [OF this] each assms(2) show ?thesis by auto
qed

text \<open>
  Claim C1, as the code has it. For a row the Ingestor keeps, \<^verbatim>\<open>Max Results\<close> of its record
  is 20 when the row has no such column; otherwise it is the number that \<^verbatim>\<open>parseInt\<close>
  reads from the column, unless that is NaN or zero, when it is 20. A negative number is
  kept as it is. In particular a column that holds the decimal numeral of an integer
  \<open>n\<close> below \<open>2^53\<close> in magnitude gives \<open>n\<close>, positive or negative, and 20 for \<open>n = 0\<close>.
\<close>

theorem max_results_of_kept_row:
  assumes "cleanedCompanies data = Inr cleaned" and "i < length cleaned"
    and "company = filter valid_row data ! i" and "mr = Max_Results (cleaned ! i)"
  shows "(company ''Max Results'' = None \<longrightarrow> mr = Fin 20) \<and>
         (\<forall>s. company ''Max Results'' = Some s \<longrightarrow>
              mr = (if parseInt s = NaN \<or> parseInt s = Fin 0 then Fin 20 else parseInt s)) \<and>
         (\<forall>n. company ''Max Results'' = Some (show_int n) \<longrightarrow> \<bar>n\<bar> < 2 ^ 53 \<longrightarrow>
              mr = (if n = 0 then Fin 20 else Fin n))"
proof -
  have mr: "mr = num_or (parseInt (ToString (company ''Max Results''))) (Fin 20)"
    unfolding assms(3,4) using assms(1,2) by (rule kept_row_record)
  have absent: "mr = Fin 20" if "company ''Max Results'' = None"
    using that by (simp add: mr ToString_def parseInt_undefined num_or_def)
  have present: "mr = (if parseInt s = NaN \<or> parseInt s = Fin 0 then Fin 20 else parseInt s)"
    if "company ''Max Results'' = Some s" for s
    using that by (simp add: mr ToString_def num_or_def)
  have numeral: "mr = (if n = 0 then Fin 20 else Fin n)"
    if "company ''Max Results'' = Some (show_int n)" and "\<bar>n\<bar> < 2 ^ 53" for n
  proof -
    from that(2) have "parseInt (show_int n) = Fin n"
      by (simp add: parseInt_show_int toNumber_exact)
    with present [OF that(1)] show ?thesis by simp
  qed
  from absent present numeral show ?thesis by blast
qed

theorem max_results_of_kept_row_witness:
  "\<exists>cleaned. cleanedCompanies [capped_row] = Inr cleaned \<and> length cleaned = 1 \<and>
     Max_Results (cleaned ! 0) = Fin 50"
proof -
  have vr: "valid_row capped_row"
    by (simp add: capped_row_def valid_row_def truthy_def)
  from cleanedCompanies_total [of "[capped_row]"] obtain cleaned where
    c: "cleanedCompanies [capped_row] = Inr cleaned" and len: "length cleaned = 1"
    by (auto simp: vr)
  have s: "show_int 50 = ''50''"
    by (simp add: show_int_def show_nat.simps [of 50] show_nat.simps [of 5] digit_char_def)
  have col: "(filter valid_row [capped_row] ! 0) ''Max Results'' = Some (show_int 50)"
    by (simp add: vr s) (simp add: capped_row_def)
  from max_results_of_kept_row [OF c _ refl refl, of 0] len col
  have "Max_Results (cleaned ! 0) = Fin 50" by fastforce
  with c len show ?thesis by blast
qed

text \<open>
  Counterexample to claim C1 as stated: a row whose \<^verbatim>\<open>Max Results\<close> is \<^verbatim>\<open>-5\<close> gives a
  record with \<^verbatim>\<open>Max Results\<close> -5, not 20.
\<close>

theorem negative_max_results_is_kept:
  "cleanedCompanies [negative_row]
     = Inr [\<lparr>Company_Name = ''Acme'', Region = ''US'', Max_Results = Fin (- 5)\<rparr>] \<and>
   Fin (- 5) \<noteq> Fin 20"
  by (simp add: negative_row_def cleanedCompanies_def valid_row_def truthy_def clean_row_def
      trim_def trimStart_def trimEnd_def js_whitespace_def parseInt_def ToString_def num_or_def
      digit_value_def toNumber_def)

section \<open>Properties of the submit flow\<close>

lemma cleanedCompanies_none_valid:
  "\<forall>r\<in>set data. \<not> valid_row r \<Longrightarrow> cleanedCompanies data = Inr []"
proof -
  assume "\<forall>r\<in>set data. \<not> valid_row r"
  then have "filter valid_row data = []" by (simp add: filter_empty_conv)
  then show ?thesis by (simp add: cleanedCompanies_def)
qed

lemma no_valid_rows_contains: "sublist ''No valid rows found'' no_valid_rows"
proof -
  have "sublist ''No valid rows found'' (''No valid rows found'' @
      '' in the CSV. Make sure each row includes \"Company Name\" and \"Region\".'')"
    by (rule sublist_append_rightI)
  also have "''No valid rows found'' @
      '' in the CSV. Make sure each row includes \"Company Name\" and \"Region\".'' = no_valid_rows"
    by (simp add: no_valid_rows_def)
  finally show ?thesis .
qed

lemma on_catch_Error:
  "m \<noteq> [] \<Longrightarrow> on_catch env (Error m) = \<lparr>msg_text = m, msg_type = error\<rparr>"
  by (simp add: on_catch_def err_message_def str_or_def)

lemma no_valid_rows_nonempty: "no_valid_rows \<noteq> []"
  by (simp add: no_valid_rows_def)

lemma try_no_valid:
  assumes "file_text f = Inr text" "cleanedCompanies (Papa_parse env text) = Inr []"
  shows "handleUpload_try env f st = (Some (Error no_valid_rows), st, [])"
    and "handleUpload_flat_try env f ft = (Some (Error no_valid_rows), ft, [])"
  using assms by (simp_all add: handleUpload_try_def handleUpload_flat_try_def)

text \<open>
  Claim C3. When a file is selected and in every row the parser returns the
  \<^verbatim>\<open>Company Name\<close> or the \<^verbatim>\<open>Region\<close> is missing or empty, so that the filter keeps no
  row, the submit flow sends no request, and it ends with an error message that starts
  with \<^verbatim>\<open>No valid rows found\<close>. This holds on both pages.
\<close>

theorem no_valid_rows_fails_before_network:
  assumes "file' st = Some f" and "file' ft = Some f" and "file_text f = Inr text"
    and "\<forall>r\<in>set (Papa_parse env text).
           r ''Company Name'' = None \<or> r ''Company Name'' = Some [] \<or>
           r ''Region'' = None \<or> r ''Region'' = Some []"
  shows "snd (handleUpload env st) = [] \<and>
         message (fst (handleUpload env st)) = Some \<lparr>msg_text = no_valid_rows, msg_type = error\<rparr> \<and>
         snd (handleUpload_flat env ft) = [] \<and>
         message (fst (handleUpload_flat env ft)) = Some \<lparr>msg_text = no_valid_rows, msg_type = error\<rparr> \<and>
         sublist ''No valid rows found'' no_valid_rows"
proof -
  have "\<forall>r\<in>set (Papa_parse env text). \<not> valid_row r"
    using assms(4) by (auto simp: valid_row_def truthy_def)
  then have e: "cleanedCompanies (Papa_parse env text) = Inr []"
    by (rule cleanedCompanies_none_valid)
  note t = try_no_valid [OF assms(3) e]
  have c: "on_catch env (Error no_valid_rows) = \<lparr>msg_text = no_valid_rows, msg_type = error\<rparr>"
    by (rule on_catch_Error [OF no_valid_rows_nonempty])
  show ?thesis
    using assms(1,2) by (simp add: handleUpload_def handleUpload_flat_def t c no_valid_rows_contains)
qed


theorem no_valid_rows_fails_before_network_witness:
  "snd (handleUpload (example_env empty_name_csv [empty_name_row] (NetworkError ''unreachable''))
          (example_state empty_name_csv)) = [] \<and>
   message (fst (handleUpload (example_env empty_name_csv [empty_name_row] (NetworkError ''unreachable''))
          (example_state empty_name_csv)))
     = Some \<lparr>msg_text = no_valid_rows, msg_type = error\<rparr> \<and>
   snd (handleUpload_flat (example_env empty_name_csv [empty_name_row] (NetworkError ''unreachable''))
          (example_flat_state empty_name_csv)) = []"
  using no_valid_rows_fails_before_network
    [of "example_state empty_name_csv" "example_file empty_name_csv"
        "example_flat_state empty_name_csv" _
        "example_env empty_name_csv [empty_name_row] (NetworkError ''unreachable'')"]
  by (simp add: empty_name_row_def)




lemma success_profiles_None:
  "resp_status result \<noteq> Some ''success'' \<or> resp_profiles result = None \<Longrightarrow>
   success_profiles result = None"
  by (auto simp: success_profiles_def)

lemma str_or_nonempty: "b \<noteq> [] \<Longrightarrow> str_or a b \<noteq> []"
  by (simp add: str_or_def split: option.splits)

text \<open>
  Claim C8. When the webhook answers with a 2xx status and a JSON body whose status is
  not \<^verbatim>\<open>success\<close> or that has no profiles, the submit flow ends with an error message:
  the message field of the body when it is there and non-empty, and
  \<^verbatim>\<open>Processing failed\<close> otherwise. This holds on both pages.
\<close>

theorem processing_failure_message:
  assumes "file' st = Some f" and "file' ft = Some f" and "file_text f = Inr text"
    and "cleanedCompanies (Papa_parse env text) = Inr cleaned" and "cleaned \<noteq> []"
    and "fetch env (webhook_request cleaned) = Response status (Inr result)"
    and "200 \<le> status" and "status \<le> 299"
    and "resp_status result \<noteq> Some ''success'' \<or> resp_profiles result = None"
  shows "message (fst (handleUpload env st))
           = Some \<lparr>msg_text = (case resp_message result of
                                  None \<Rightarrow> ''Processing failed''
                                | Some m \<Rightarrow> if m = [] then ''Processing failed'' else m),
                    msg_type = error\<rparr> \<and>
         message (fst (handleUpload_flat env ft))
           = Some \<lparr>msg_text = (case resp_message result of
                                  None \<Rightarrow> ''Processing failed''
                                | Some m \<Rightarrow> if m = [] then ''Processing failed'' else m),
                    msg_type = error\<rparr>"
proof -
  have isok: "ok status" using assms(7,8) by (simp add: ok_def)
  note none = success_profiles_None [OF assms(9)]
  have t: "fst (handleUpload_try env f s)
      = Some (Error (str_or (resp_message result) ''Processing failed''))" for s
    using assms(3-6) isok none by (simp add: handleUpload_try_def)
  have tf: "fst (handleUpload_flat_try env f s)
      = Some (Error (str_or (resp_message result) ''Processing failed''))" for s
    using assms(3-6) isok none by (simp add: handleUpload_flat_try_def)
  have c: "on_catch env (Error (str_or (resp_message result) ''Processing failed''))
      = \<lparr>msg_text = str_or (resp_message result) ''Processing failed'', msg_type = error\<rparr>"
    by (rule on_catch_Error) (simp add: str_or_nonempty)
  have s: "str_or (resp_message result) ''Processing failed''
      = (case resp_message result of
           None \<Rightarrow> ''Processing failed''
         | Some m \<Rightarrow> if m = [] then ''Processing failed'' else m)"
    by (simp add: str_or_def)
  have g: "message (fst (handleUpload env st))
      = Some \<lparr>msg_text = str_or (resp_message result) ''Processing failed'', msg_type = error\<rparr>"
    using assms(1) t [of "st\<lparr>isLoading := True, results := [], processingStats := None,
                      groupedResults := []\<rparr>"]
    by (auto simp: handleUpload_def c split: prod.splits)
  have h: "message (fst (handleUpload_flat env ft))
      = Some \<lparr>msg_text = str_or (resp_message result) ''Processing failed'', msg_type = error\<rparr>"
    using assms(2) tf [of "ft\<lparr>isLoading := True, results := [], processingStats := None\<rparr>"]
    by (auto simp: handleUpload_flat_def c split: prod.splits)
  from g h show ?thesis by (simp only: s)
qed


theorem processing_failure_message_witness:
  "message (fst (handleUpload
       (example_env acme_csv [acme_row]
          (Response 200 (Inr (scenario_C_response\<lparr>resp_status := Some ''error'',
                                resp_message := Some ''Quota exceeded''\<rparr>))))
       (example_state acme_csv)))
     = Some \<lparr>msg_text = ''Quota exceeded'', msg_type = error\<rparr> \<and>
   message (fst (handleUpload_flat
       (example_env acme_csv [acme_row]
          (Response 200 (Inr (scenario_C_response\<lparr>resp_profiles := None\<rparr>))))
       (example_flat_state acme_csv)))
     = Some \<lparr>msg_text = ''Processing failed'', msg_type = error\<rparr>"
proof -
  let ?r1 = "scenario_C_response\<lparr>resp_status := Some ''error'',
                resp_message := Some ''Quota exceeded''\<rparr>"
  let ?r2 = "scenario_C_response\<lparr>resp_profiles := None\<rparr>"
  have c: "cleanedCompanies (Papa_parse (example_env acme_csv [acme_row] out)
      acme_csv) = Inr [acme_record]"
    for out
    by (simp add: acme_cleaned)
  have "message (fst (handleUpload (example_env acme_csv [acme_row] (Response 200 (Inr ?r1)))
       (example_state acme_csv)))
     = Some \<lparr>msg_text = ''Quota exceeded'', msg_type = error\<rparr>"
    using processing_failure_message [OF example_state_file(1) [of acme_csv] example_state_file(2) [of acme_csv]
        example_state_file(3) [of acme_csv] c, of "Response 200 (Inr ?r1)" 200 ?r1]
    by (simp add: scenario_C_response_def)
  moreover have "message (fst (handleUpload_flat (example_env acme_csv [acme_row] (Response 200 (Inr ?r2)))
       (example_flat_state acme_csv)))
     = Some \<lparr>msg_text = ''Processing failed'', msg_type = error\<rparr>"
    using processing_failure_message [OF example_state_file(1) [of acme_csv] example_state_file(2) [of acme_csv]
        example_state_file(3) [of acme_csv] c, of "Response 200 (Inr ?r2)" 200 ?r2]
    by (simp add: scenario_C_response_def)
  ultimately show ?thesis by (intro conjI)
qed

lemma try_keeps_fileInput:
  "handleUpload_try env f s = (t, s1, reqs) \<Longrightarrow> fileInput s1 = fileInput s"
  by (auto simp: handleUpload_try_def on_success_def Let_def
      split: sum.splits option.splits FetchOutcome.splits if_splits)

lemma flat_try_keeps_fileInput:
  "handleUpload_flat_try env f s = (t, s1, reqs) \<Longrightarrow> fileInput s1 = fileInput s"
  by (auto simp: handleUpload_flat_try_def on_success_flat_def Let_def
      split: sum.splits option.splits FetchOutcome.splits if_splits)

lemma handleUpload_finally:
  assumes "file' st = Some f"
  shows "isLoading (fst (handleUpload env st)) = False"
    and "file' (fst (handleUpload env st)) = None"
    and "fileInput (fst (handleUpload env st)) = map_option (\<lambda>_. []) (fileInput st)"
proof -
  obtain t s1 reqs where
    t: "handleUpload_try env f (st\<lparr>isLoading := True, results := [], processingStats := None,
          groupedResults := []\<rparr>) = (t, s1, reqs)"
    by (cases "handleUpload_try env f (st\<lparr>isLoading := True, results := [],
          processingStats := None, groupedResults := []\<rparr>)") auto
  from try_keeps_fileInput [OF t] have i: "fileInput s1 = fileInput st" by simp
  show "isLoading (fst (handleUpload env st)) = False"
    and "file' (fst (handleUpload env st)) = None"
    and "fileInput (fst (handleUpload env st)) = map_option (\<lambda>_. []) (fileInput st)"
    using assms t i by (simp_all add: handleUpload_def Let_def split: option.splits)
qed

lemma handleUpload_flat_finally:
  assumes "file' ft = Some f"
  shows "isLoading (fst (handleUpload_flat env ft)) = False"
    and "file' (fst (handleUpload_flat env ft)) = None"
    and "fileInput (fst (handleUpload_flat env ft)) = map_option (\<lambda>_. []) (fileInput ft)"
proof -
  obtain t s1 reqs where
    t: "handleUpload_flat_try env f (ft\<lparr>isLoading := True, results := [],
          processingStats := None\<rparr>) = (t, s1, reqs)"
    by (cases "handleUpload_flat_try env f (ft\<lparr>isLoading := True, results := [],
          processingStats := None\<rparr>)") auto
  from flat_try_keeps_fileInput [OF t] have i: "fileInput s1 = fileInput ft" by simp
  show "isLoading (fst (handleUpload_flat env ft)) = False"
    and "file' (fst (handleUpload_flat env ft)) = None"
    and "fileInput (fst (handleUpload_flat env ft)) = map_option (\<lambda>_. []) (fileInput ft)"
    using assms t i by (simp_all add: handleUpload_flat_def Let_def split: option.splits)
qed

lemma handleUpload_no_file: "file' s = None \<Longrightarrow> handleUpload env s = (s, [])"
  by (simp add: handleUpload_def)

lemma handleUpload_flat_no_file: "file' s = None \<Longrightarrow> handleUpload_flat env s = (s, [])"
  by (simp add: handleUpload_flat_def)

text \<open>
  Claim C10. Whatever the parser and the network do, a submission with a selected file
  ends with the loading flag false, no file selected and the file input reset. The
  submit button is then disabled, and submitting again does nothing and sends nothing
  until a file is selected. This holds on both pages, and also when the submission
  succeeds.
\<close>

theorem every_submission_clears_the_file:
  assumes "file' st = Some f" and "file' ft = Some g"
  shows "isLoading (fst (handleUpload env st)) = False \<and>
         file' (fst (handleUpload env st)) = None \<and>
         fileInput (fst (handleUpload env st)) = map_option (\<lambda>_. []) (fileInput st) \<and>
         submit_disabled (fst (handleUpload env st)) \<and>
         handleUpload env' (fst (handleUpload env st)) = (fst (handleUpload env st), []) \<and>
         isLoading (fst (handleUpload_flat env ft)) = False \<and>
         file' (fst (handleUpload_flat env ft)) = None \<and>
         fileInput (fst (handleUpload_flat env ft)) = map_option (\<lambda>_. []) (fileInput ft) \<and>
         submit_disabled (fst (handleUpload_flat env ft)) \<and>
         handleUpload_flat env' (fst (handleUpload_flat env ft))
           = (fst (handleUpload_flat env ft), [])"
proof -
  note a = handleUpload_finally [OF assms(1), of env]
  note b = handleUpload_flat_finally [OF assms(2), of env]
  have "submit_disabled (fst (handleUpload env st))"
    and "submit_disabled (fst (handleUpload_flat env ft))"
    using a(2) b(2) by (simp_all add: submit_disabled_def)
  moreover note handleUpload_no_file [OF a(2), of env']
    handleUpload_flat_no_file [OF b(2), of env']
  ultimately show ?thesis using a b by (intro conjI)
qed

theorem every_submission_clears_the_file_witness:
  "isLoading (fst (handleUpload (example_env acme_csv [acme_row] (Response 200 (Inr scenario_C_response)))
       (example_state acme_csv))) = False \<and>
   file' (fst (handleUpload (example_env acme_csv [acme_row] (Response 200 (Inr scenario_C_response)))
       (example_state acme_csv))) = None \<and>
   fileInput (fst (handleUpload (example_env acme_csv [acme_row] (Response 200 (Inr scenario_C_response)))
       (example_state acme_csv))) = Some [] \<and>
   file' (fst (handleUpload_flat (example_env acme_csv [acme_row] (NetworkError ''Failed to fetch''))
       (example_flat_state acme_csv))) = None"
proof -
  have "fileInput (example_state acme_csv) = Some ''companies.csv''"
    by (simp add: example_state_def)
  with every_submission_clears_the_file [OF example_state_file(1) [of acme_csv], of "example_flat_state acme_csv"
      "example_file acme_csv" "example_env acme_csv [acme_row] (Response 200 (Inr scenario_C_response))"]
    every_submission_clears_the_file [OF example_state_file(1) [of acme_csv], of "example_flat_state acme_csv"
      "example_file acme_csv" "example_env acme_csv [acme_row] (NetworkError ''Failed to fetch'')"]
  show ?thesis by simp
qed

section \<open>Properties of the Result Presenter\<close>

lemma first_seen_set [simp]: "set (first_seen xs) = set xs"
  by (induction xs) auto

lemma first_seen_distinct [simp]: "distinct (first_seen xs)"
  by (induction xs) auto

lemma first_seen_snoc:
  "first_seen (xs @ [x]) = (if x \<in> set xs then first_seen xs else first_seen xs @ [x])"
  by (induction xs) auto

lemma map_of_keyed:
  "map_of (map (\<lambda>k. (k, F k)) ks) k = (if k \<in> set ks then Some (F k) else None)"
  by (induction ks) auto

lemma put_property_absent:
  "k \<notin> fst ` set obj \<Longrightarrow> put_property k v obj = obj @ [(k, v)]"
  by (induction obj) auto

lemma put_property_last:
  "k \<notin> fst ` set obj \<Longrightarrow> put_property k v (obj @ [(k, w)]) = obj @ [(k, v)]"
  by (induction obj) auto

lemma put_property_keyed:
  "k \<in> set ks \<Longrightarrow> distinct ks \<Longrightarrow>
   put_property k v (map (\<lambda>k'. (k', F k')) ks) = map (\<lambda>k'. (k', if k' = k then v else F k')) ks"
  by (induction ks) auto

lemma forEach_throwing_snoc:
  "forEach_throwing f s (xs @ [x]) =
     (case forEach_throwing f s xs of Inl e \<Rightarrow> Inl e | Inr s' \<Rightarrow> f s' x)"
  by (induction xs arbitrary: s) (auto split: sum.splits)

lemma group_step_groups_of:
  assumes "companyKey x \<notin> set Object_prototype_keys"
  shows "group_step (groups_of xs) x = Inr (groups_of (xs @ [x]))"
proof (cases "companyKey x \<in> set (map companyKey xs)")
  case True
  let ?k = "companyKey x"
  let ?ks = "first_seen (map companyKey xs)"
  have own: "get_property (groups_of xs) ?k = Own (filter (\<lambda>p. companyKey p = ?k) xs)"
    using True by (simp add: get_property_def groups_of_def map_of_keyed)
  have "put_property ?k (filter (\<lambda>p. companyKey p = ?k) xs @ [x]) (groups_of xs)
      = map (\<lambda>k'. (k', if k' = ?k then filter (\<lambda>p. companyKey p = ?k) xs @ [x]
                         else filter (\<lambda>p. companyKey p = k') xs)) ?ks"
    unfolding groups_of_def using True by (intro put_property_keyed) simp_all
  also have "\<dots> = groups_of (xs @ [x])"
    using True by (auto simp: groups_of_def first_seen_snoc)
  finally show ?thesis
    using own by (simp add: group_step_def companyKey_def [symmetric])
next
  case False
  let ?k = "companyKey x"
  let ?ks = "first_seen (map companyKey xs)"
  have fresh: "?k \<notin> fst ` set (groups_of xs)"
    using False by (auto simp: groups_of_def)
  have undef: "get_property (groups_of xs) ?k = Undefined"
    using False assms by (simp add: get_property_def groups_of_def map_of_keyed)
  have created: "put_property ?k [] (groups_of xs) = groups_of xs @ [(?k, [])]"
    using fresh by (rule put_property_absent)
  have own: "get_property (groups_of xs @ [(?k, [])]) ?k = Own []"
    using False by (simp add: get_property_def groups_of_def map_of_keyed map_add_def)
  have pushed: "put_property ?k ([] @ [x]) (groups_of xs @ [(?k, [])]) = groups_of xs @ [(?k, [x])]"
    using fresh by (simp add: put_property_last)
  have ne: "companyKey p \<noteq> ?k" if "p \<in> set xs" for p
    using that False by (metis image_eqI list.set_map)
  have none: "filter (\<lambda>p. companyKey p = ?k) xs = []"
    by (simp add: filter_empty_conv ne)
  have others: "filter (\<lambda>p. companyKey p = k') (xs @ [x]) = filter (\<lambda>p. companyKey p = k') xs"
    if "k' \<in> set ?ks" for k'
    using that False by auto
  have "groups_of (xs @ [x])
      = map (\<lambda>k. (k, filter (\<lambda>p. companyKey p = k) (xs @ [x]))) (?ks @ [?k])"
    using False by (simp add: groups_of_def first_seen_snoc)
  also have "\<dots> = map (\<lambda>k. (k, filter (\<lambda>p. companyKey p = k) (xs @ [x]))) ?ks @ [(?k, [x])]"
    using none by simp
  also have "map (\<lambda>k. (k, filter (\<lambda>p. companyKey p = k) (xs @ [x]))) ?ks = groups_of xs"
    unfolding groups_of_def using others by (intro map_cong) simp_all
  finally have "groups_of xs @ [(?k, [x])] = groups_of (xs @ [x])" by simp
  with undef created own pushed show ?thesis
    by (simp add: group_step_def companyKey_def [symmetric])
qed

lemma group_profiles_groups_of:
  "\<forall>p\<in>set profiles. companyKey p \<notin> set Object_prototype_keys \<Longrightarrow>
   group_profiles profiles = Inr (groups_of profiles)"
proof (induction profiles rule: rev_induct)
  case Nil
  then show ?case by (simp add: group_profiles_def groups_of_def)
next
  case (snoc x xs)
  then have "group_profiles xs = Inr (groups_of xs)"
    and "companyKey x \<notin> set Object_prototype_keys" by simp_all
  then show ?case
    by (simp add: group_profiles_def forEach_throwing_snoc group_step_groups_of)
qed

lemma insort_key_keyed:
  "insort_key (\<lambda>p. f (fst p)) (k, F k) (map (\<lambda>k. (k, F k)) ks)
     = map (\<lambda>k. (k, F k)) (insort_key f k ks)"
  by (induction ks) auto

lemma sort_key_keyed:
  "sort_key (\<lambda>p. f (fst p)) (map (\<lambda>k. (k, F k)) ks) = map (\<lambda>k. (k, F k)) (sort_key f ks)"
  by (induction ks) (auto simp: insort_key_keyed)

lemma Object_entries_keyed:
  "Object_entries (map (\<lambda>k. (k, F k)) ks)
     = map (\<lambda>k. (k, F k))
         (sort_key decimal (filter is_array_index ks) @ filter (\<lambda>k. \<not> is_array_index k) ks)"
  by (simp add: Object_entries_def filter_map comp_def sort_key_keyed)

lemma Object_keys_keyed:
  "Object_keys (map (\<lambda>k. (k, F k)) ks)
     = sort_key decimal (filter is_array_index ks) @ filter (\<lambda>k. \<not> is_array_index k) ks"
  by (simp add: Object_keys_def Object_entries_keyed comp_def)

lemma example_keys:
  "companyKey acme_profile = ''Acme''"
  "companyKey unlabelled_profile = ''Unknown Company''"
  "companyKey numbered_profile = ''42''"
  by (simp_all add: companyKey_def str_or_def acme_profile_def unlabelled_profile_def
      numbered_profile_def)

lemma example_keys_kind:
  "\<not> is_array_index ''Acme''" "\<not> is_array_index ''Unknown Company''" "is_array_index ''42''"
  by (simp_all add: is_array_index_def digit_value_def decimal_def)

lemma example_keys_not_inherited:
  "''Acme'' \<notin> set Object_prototype_keys" "''Unknown Company'' \<notin> set Object_prototype_keys"
  "''42'' \<notin> set Object_prototype_keys"
  by (simp_all add: Object_prototype_keys_def)

lemma example_profiles_differ: "acme_profile \<noteq> unlabelled_profile"
  by (simp add: acme_profile_def unlabelled_profile_def)

text \<open>
  Claim C4, as the code has it. The key of a profile is its \<^verbatim>\<open>search_company\<close>, or
  \<^verbatim>\<open>Unknown Company\<close> when that field is absent or empty. When no key is the name of a
  property of \<^verbatim>\<open>Object.prototype\<close>, grouping succeeds; the groups have exactly the
  distinct keys of the profiles; each group holds the profiles of its key in their
  original order; and the groups are listed with the keys that are array indices first,
  by ascending value, followed by all other keys in first-seen order. So the listing is
  in first-seen order when no key is an array index.
\<close>

theorem grouping_by_company:
  assumes "\<forall>p\<in>set profiles. companyKey p \<notin> set Object_prototype_keys"
  shows "\<exists>grouped. group_profiles profiles = Inr grouped \<and>
           Object_keys grouped
             = sort_key decimal (filter is_array_index (first_seen (map companyKey profiles)))
               @ filter (\<lambda>k. \<not> is_array_index k) (first_seen (map companyKey profiles)) \<and>
           length (Object_keys grouped) = card (companyKey ` set profiles) \<and>
           Object_entries grouped
             = map (\<lambda>k. (k, filter (\<lambda>p. companyKey p = k) profiles)) (Object_keys grouped) \<and>
           ((\<forall>p\<in>set profiles. \<not> is_array_index (companyKey p)) \<longrightarrow>
              Object_keys grouped = first_seen (map companyKey profiles))"
proof -
  let ?ks = "first_seen (map companyKey profiles)"
  let ?g = "groups_of profiles"
  have g: "group_profiles profiles = Inr ?g"
    using assms by (rule group_profiles_groups_of)
  have keys: "Object_keys ?g
      = sort_key decimal (filter is_array_index ?ks) @ filter (\<lambda>k. \<not> is_array_index k) ?ks"
    unfolding groups_of_def by (rule Object_keys_keyed)
  have "distinct (Object_keys ?g)" and "set (Object_keys ?g) = companyKey ` set profiles"
    unfolding keys by auto
  then have len: "length (Object_keys ?g) = card (companyKey ` set profiles)"
    using distinct_card by fastforce
  have entries: "Object_entries ?g
      = map (\<lambda>k. (k, filter (\<lambda>p. companyKey p = k) profiles)) (Object_keys ?g)"
    unfolding keys unfolding groups_of_def by (rule Object_entries_keyed)
  have plain: "Object_keys ?g = ?ks" if "\<forall>p\<in>set profiles. \<not> is_array_index (companyKey p)"
  proof -
    from that have "\<forall>k\<in>set ?ks. \<not> is_array_index k" by auto
    then have "filter is_array_index ?ks = []" "filter (\<lambda>k. \<not> is_array_index k) ?ks = ?ks"
      by (simp_all add: filter_empty_conv)
    then show ?thesis by (simp add: keys)
  qed
  from g keys len entries plain show ?thesis by blast
qed


theorem grouping_by_company_witness:
  "\<exists>grouped.
     group_profiles [acme_profile, unlabelled_profile, acme_profile] = Inr grouped \<and>
     Object_keys grouped = [''Acme'', ''Unknown Company''] \<and>
     length (Object_keys grouped) = 2 \<and>
     Object_entries grouped
       = [(''Acme'', [acme_profile, acme_profile]), (''Unknown Company'', [unlabelled_profile])]"
proof -
  let ?ps = "[acme_profile, unlabelled_profile, acme_profile]"
  have h: "\<forall>p\<in>set ?ps. companyKey p \<notin> set Object_prototype_keys"
    by (simp add: example_keys example_keys_not_inherited)
  have plain: "\<forall>p\<in>set ?ps. \<not> is_array_index (companyKey p)"
    by (simp add: example_keys example_keys_kind)
  have fs: "first_seen (map companyKey ?ps) = [''Acme'', ''Unknown Company'']"
    by (simp add: example_keys)
  from grouping_by_company [OF h] plain obtain grouped where
    g: "group_profiles ?ps = Inr grouped"
       "Object_keys grouped = first_seen (map companyKey ?ps)"
       "Object_entries grouped
          = map (\<lambda>k. (k, filter (\<lambda>p. companyKey p = k) ?ps)) (Object_keys grouped)"
    by blast
  from g(2) have k: "Object_keys grouped = [''Acme'', ''Unknown Company'']" by (simp only: fs)
  from g(3) have "Object_entries grouped
       = [(''Acme'', [acme_profile, acme_profile]), (''Unknown Company'', [unlabelled_profile])]"
    unfolding k by (simp add: example_keys)
  moreover from k have "length (Object_keys grouped) = 2" by simp
  ultimately show ?thesis using g(1) k by blast
qed

text \<open>
  Counterexample to claim C4 as stated: first-seen order fails for a company whose name
  is a number. The profiles of \<^verbatim>\<open>42\<close>, seen after those of \<^verbatim>\<open>Acme\<close>, are listed before
  them.
\<close>

theorem numeric_company_key_is_listed_first:
  "\<exists>grouped.
     group_profiles [acme_profile, numbered_profile] = Inr grouped \<and>
     Object_keys grouped = [''42'', ''Acme''] \<and>
     first_seen (map companyKey [acme_profile, numbered_profile]) = [''Acme'', ''42'']"
proof -
  have "group_profiles [acme_profile, numbered_profile]
      = Inr [(''Acme'', [acme_profile]), (''42'', [numbered_profile])]"
    by (simp add: group_profiles_def group_step_def companyKey_def [symmetric] example_keys
        get_property_def example_keys_not_inherited Let_def)
  moreover have "Object_keys [(''Acme'', [acme_profile]), (''42'', [numbered_profile])]
      = [''42'', ''Acme'']"
    by (simp add: Object_keys_def Object_entries_def example_keys_kind)
  moreover have "first_seen (map companyKey [acme_profile, numbered_profile]) = [''Acme'', ''42'']"
    by (simp add: example_keys)
  ultimately show ?thesis by blast
qed

text \<open>
  The hypothesis on the keys is needed: for a company called \<^verbatim>\<open>constructor\<close> the lookup
  finds the function inherited from the prototype, no group is created, and the call of
  \<^verbatim>\<open>push\<close> raises a TypeError.
\<close>

lemma inherited_key_throws:
  "search_company profile = Some ''constructor'' \<Longrightarrow> group_profiles [profile] = Inl TypeError"
  by (simp add: group_profiles_def group_step_def str_or_def get_property_def
      Object_prototype_keys_def)







end
